theory Spec2Isabelle
  imports Complex_Main "HOL-Library.Sublist"
begin

section \<open>The mock vector database server (scripts/phase_4_2_2/reliable_mock.py)\<close>

text \<open>
  The program is one request handler class, \<^verbatim>\<open>ReliableMock\<close>, with two class
  attributes (\<^verbatim>\<open>count\<close>, \<^verbatim>\<open>start_time\<close>) and two methods (\<^verbatim>\<open>do_GET\<close>,
  \<^verbatim>\<open>do_POST\<close>). The handlers are modelled as functions from the class state, the
  request and the reading of the wall clock to a result: the new class state, what was
  sent to the client (or the exception that left the handler) and what was printed.
\<close>

subsection \<open>Python values\<close>

text \<open>
  The exceptions that can leave a handler: \<^verbatim>\<open>int(str)\<close> raises ValueError,
  \<^verbatim>\<open>json.loads\<close> raises JSONDecodeError (or UnicodeDecodeError, RecursionError), and
  \<^verbatim>\<open>data.get\<close> on a value that is not a dict raises AttributeError.
\<close>

datatype py_error =
  ValueError | JSONDecodeError | UnicodeDecodeError | RecursionError | AttributeError

text \<open>The values \<^verbatim>\<open>json.loads\<close> builds and \<^verbatim>\<open>json.dumps\<close> serialises.\<close>

datatype py_float = Finite rat | Infinity bool | NaN

datatype py_value =
    PyNone
  | PyBool bool
  | PyInt int
  | PyFloat py_float
  | PyStr string
  | PyList "py_value list"
  | PyDict "(string \<times> py_value) list"

text \<open>
  The two library calls of the handler whose code is not part of the program:
  \<^verbatim>\<open>json.loads\<close> on bytes and \<^verbatim>\<open>int\<close> on a header string. They are parameters of
  the model, so every theorem holds whatever these functions compute.
\<close>

record py_lib =
  json_loads :: "string \<Rightarrow> py_error + py_value"
  py_int :: "string \<Rightarrow> py_error + int"

text \<open>\<^verbatim>\<open>sub in s\<close> on strings: \<open>sub\<close> occurs in \<open>s\<close> as a contiguous block.\<close>

fun contains :: "string \<Rightarrow> string \<Rightarrow> bool" where
  "contains sub [] = (sub = [])"
| "contains sub (c # cs) = (prefix sub (c # cs) \<or> contains sub cs)"

text \<open>\<^verbatim>\<open>str(n)\<close> for an integer, as the f-string \<^verbatim>\<open>f'vec_{self.count}'\<close> renders it.\<close>

definition digit_char :: "nat \<Rightarrow> char" where
  "digit_char d = ''0123456789'' ! d"

function str_nat :: "nat \<Rightarrow> string" where
  "str_nat n = (if n < 10 then [digit_char n] else str_nat (n div 10) @ [digit_char (n mod 10)])"
  by pat_completeness auto
termination
  by (relation "measure id") auto

declare str_nat.simps [simp del]

definition str_int :: "int \<Rightarrow> string" where
  "str_int i = (if i < 0 then CHR ''-'' # str_nat (nat (- i)) else str_nat (nat i))"

text \<open>\<^verbatim>\<open>int(x)\<close> for a float \<open>x\<close>: the fraction is dropped, rounding toward zero.\<close>

definition py_trunc :: "rat \<Rightarrow> int" where
  "py_trunc x = (if x < 0 then - \<lfloor>- x\<rfloor> else \<lfloor>x\<rfloor>)"

text \<open>\<^verbatim>\<open>d.get(key, default)\<close>; the attribute exists on a dict only.\<close>

fun py_get :: "py_value \<Rightarrow> string \<Rightarrow> py_value \<Rightarrow> py_error + py_value" where
  "py_get (PyDict d) key dflt = Inr (case map_of d key of None \<Rightarrow> dflt | Some v \<Rightarrow> v)"
| "py_get _ key dflt = Inl AttributeError"

subsection \<open>State, requests, responses\<close>

text \<open>
  The class attributes. \<^verbatim>\<open>start_time\<close> is the float \<^verbatim>\<open>time.time()\<close> returned when
  the class body ran; floats that stand for times are modelled by the rationals they denote.
\<close>

record server_state =
  count :: int
  start_time :: rat

definition initial_state :: "rat \<Rightarrow> server_state" where
  "initial_state t0 = \<lparr>count = 0, start_time = t0\<rparr>"

text \<open>
  What a handler reads of a request: \<^verbatim>\<open>self.path\<close>, the value of the Content-Length
  header (\<open>None\<close> when the header is absent) and the bytes that \<^verbatim>\<open>self.rfile\<close> delivers
  after the headers, up to the end of the stream.
\<close>

record request =
  path :: string
  content_length :: "string option"
  rfile :: string

text \<open>
  \<^verbatim>\<open>rfile.read(n)\<close>: at most \<open>n\<close> bytes, and everything up to the end of the stream
  when \<open>n\<close> is negative.
\<close>

definition rfile_read :: "string \<Rightarrow> int \<Rightarrow> string" where
  "rfile_read bytes n = (if n < 0 then bytes else take (nat n) bytes)"

text \<open>
  What the handler sends: the status of \<^verbatim>\<open>send_response\<close>, the headers of
  \<^verbatim>\<open>send_header\<close>, and the body: \<open>None\<close> when nothing is written to \<^verbatim>\<open>wfile\<close>,
  \<open>Some v\<close> for the bytes \<^verbatim>\<open>json.dumps(v).encode()\<close>.
\<close>

record response =
  status :: nat
  headers :: "(string \<times> string) list"
  body :: "py_value option"

text \<open>A line of the progress indicator: the count and the rate that are formatted into it.\<close>

record progress =
  p_count :: int
  p_rate :: rat

datatype outcome = Responded response | Raised py_error

record result =
  state_after :: server_state
  outcome :: outcome
  printed :: "progress list"

definition not_found :: response where
  "not_found = \<lparr>status = 404, headers = [], body = None\<rparr>"

definition json_response :: "py_value \<Rightarrow> response" where
  "json_response v =
     \<lparr>status = 200, headers = [(''Content-Type'', ''application/json'')], body = Some v\<rparr>"

subsection \<open>The handlers\<close>

definition do_GET :: "server_state \<Rightarrow> request \<Rightarrow> rat \<Rightarrow> result" where
  "do_GET s rq now =
     (if contains ''health'' (path rq) then
        \<lparr>state_after = s,
         outcome = Responded (json_response (PyDict
           [(''status'', PyStr ''healthy''),
            (''requests'', PyInt (count s)),
            (''uptime'', PyInt (py_trunc (now - start_time s)))])),
         printed = []\<rparr>
      else \<lparr>state_after = s, outcome = Responded not_found, printed = []\<rparr>)"

text \<open>\<^verbatim>\<open>length = int(self.headers.get('Content-Length', 0))\<close>\<close>

definition read_length :: "py_lib \<Rightarrow> request \<Rightarrow> py_error + int" where
  "read_length L rq = (case content_length rq of None \<Rightarrow> Inr 0 | Some h \<Rightarrow> py_int L h)"

text \<open>The block under \<^verbatim>\<open># Read the data\<close>, with \<open>c\<close> the counter after the increment.\<close>

definition read_vector_id :: "py_lib \<Rightarrow> request \<Rightarrow> int \<Rightarrow> py_error + py_value" where
  "read_vector_id L rq c =
     (case read_length L rq of
        Inl e \<Rightarrow> Inl e
      | Inr len \<Rightarrow>
          if len \<noteq> 0 then
            (case json_loads L (rfile_read (rfile rq) len) of
               Inl e \<Rightarrow> Inl e
             | Inr data \<Rightarrow> py_get data ''id'' (PyStr (''vec_'' @ str_int c)))
          else Inr (PyStr (''vec_'' @ str_int c)))"

text \<open>The block under \<^verbatim>\<open># Progress indicator\<close>.\<close>

definition progress_indicator :: "server_state \<Rightarrow> rat \<Rightarrow> progress list" where
  "progress_indicator s now =
     (if count s mod 25 = 0 then
        let elapsed = now - start_time s;
            rate = (if elapsed > 0 then of_int (count s) / elapsed else 0)
        in [\<lparr>p_count = count s, p_rate = rate\<rparr>]
      else [])"

definition do_POST :: "py_lib \<Rightarrow> server_state \<Rightarrow> request \<Rightarrow> rat \<Rightarrow> result" where
  "do_POST L s rq now =
     (if contains ''vector'' (path rq) then
        let s1 = s\<lparr>count := count s + 1\<rparr> in
        (case read_vector_id L rq (count s1) of
           Inl e \<Rightarrow> \<lparr>state_after = s1, outcome = Raised e, printed = []\<rparr>
         | Inr vector_id \<Rightarrow>
             \<lparr>state_after = s1,
              outcome = Responded (json_response (PyDict
                [(''id'', vector_id), (''status'', PyStr ''inserted'')])),
              printed = progress_indicator s1 now\<rparr>)
      else \<lparr>state_after = s, outcome = Responded not_found, printed = []\<rparr>)"

subsection \<open>The server loop\<close>

text \<open>
  \<^verbatim>\<open>serve_forever\<close> handles one request after the other; the framework calls
  \<^verbatim>\<open>do_GET\<close> or \<^verbatim>\<open>do_POST\<close> by the request's method, and after an exception it closes
  the connection and goes on with the next request. An event is a request with its method
  and the reading of \<^verbatim>\<open>time.time()\<close> while it is handled.
\<close>

datatype http_method = GET | POST

record event =
  meth :: http_method
  req :: request
  clock :: rat

definition handle :: "py_lib \<Rightarrow> server_state \<Rightarrow> event \<Rightarrow> result" where
  "handle L s ev =
     (case meth ev of
        GET \<Rightarrow> do_GET s (req ev) (clock ev)
      | POST \<Rightarrow> do_POST L s (req ev) (clock ev))"

fun serve :: "py_lib \<Rightarrow> server_state \<Rightarrow> event list \<Rightarrow> result list" where
  "serve L s [] = []"
| "serve L s (ev # evs) = handle L s ev # serve L (state_after (handle L s ev)) evs"

fun run :: "py_lib \<Rightarrow> server_state \<Rightarrow> event list \<Rightarrow> server_state" where
  "run L s [] = s"
| "run L s (ev # evs) = run L (state_after (handle L s ev)) evs"

subsection \<open>Vocabulary of the properties\<close>

text \<open>A vector-insert request: a POST whose path contains \<^verbatim>\<open>vector\<close>.\<close>

definition is_insert :: "event \<Rightarrow> bool" where
  "is_insert ev = (meth ev = POST \<and> contains ''vector'' (path (req ev)))"

text \<open>A request succeeded when the handler answered it with status 200.\<close>

definition succeeded :: "result \<Rightarrow> bool" where
  "succeeded r = (case outcome r of Responded rsp \<Rightarrow> status rsp = 200 | Raised e \<Rightarrow> False)"

text \<open>The number of successful vector-insert requests while \<open>evs\<close> is served from \<open>s\<close>.\<close>

definition successful_inserts :: "py_lib \<Rightarrow> server_state \<Rightarrow> event list \<Rightarrow> nat" where
  "successful_inserts L s evs =
     length (filter (\<lambda>(ev, r). is_insert ev \<and> succeeded r) (zip evs (serve L s evs)))"

text \<open>The two answers with status 200, as the handlers build them.\<close>

definition health_reply :: "int \<Rightarrow> int \<Rightarrow> outcome" where
  "health_reply n u =
     Responded \<lparr>status = 200, headers = [(''Content-Type'', ''application/json'')],
       body = Some (PyDict
         [(''status'', PyStr ''healthy''), (''requests'', PyInt n), (''uptime'', PyInt u)])\<rparr>"


subsection \<open>The specification's wording\<close>



subsection \<open>Concrete inputs\<close>

text \<open>
  The examples below run the handlers on concrete requests. There the library stands
  for Python's results on the bodies and header values the examples use:
  \<^verbatim>\<open>json.loads(b'{"id":"abc"}') == {'id': 'abc'}\<close>, \<^verbatim>\<open>json.loads(b'{}') == {}\<close>,
  \<^verbatim>\<open>json.loads(b'[]') == []\<close>, \<^verbatim>\<open>json.loads(b'{')\<close> raises JSONDecodeError,
  \<^verbatim>\<open>int('0') == 0\<close>, \<^verbatim>\<open>int('1') == 1\<close>, \<^verbatim>\<open>int('2') == 2\<close>,
  \<^verbatim>\<open>int('12') == 12\<close>. No example applies it to any other input.
\<close>

definition sample_loads :: "string \<Rightarrow> py_error + py_value" where
  "sample_loads b =
     (if b = ''{\"id\":\"abc\"}'' then Inr (PyDict [(''id'', PyStr ''abc'')])
      else if b = ''{}'' then Inr (PyDict [])
      else if b = ''[]'' then Inr (PyList [])
      else Inl JSONDecodeError)"

definition sample_int :: "string \<Rightarrow> py_error + int" where
  "sample_int h =
     (if h = ''0'' then Inr 0
      else if h = ''1'' then Inr 1
      else if h = ''2'' then Inr 2
      else if h = ''12'' then Inr 12
      else Inl ValueError)"

definition sample_lib :: py_lib where
  "sample_lib = \<lparr>json_loads = sample_loads, py_int = sample_int\<rparr>"

definition abc_request :: request where
  "abc_request =
     \<lparr>path = ''/api/v1/vectors'', content_length = Some ''12'', rfile = ''{\"id\":\"abc\"}''\<rparr>"

definition health_request :: request where
  "health_request = \<lparr>path = ''/api/v1/health'', content_length = None, rfile = ''''\<rparr>"

definition unknown_request :: request where
  "unknown_request = \<lparr>path = ''/unknown'', content_length = None, rfile = ''''\<rparr>"

definition bare_request :: request where
  "bare_request = \<lparr>path = ''/api/v1/vectors'', content_length = None, rfile = ''''\<rparr>"

definition list_request :: request where
  "list_request = \<lparr>path = ''/api/v1/vectors'', content_length = Some ''2'', rfile = ''[]''\<rparr>"

definition dict_request :: request where
  "dict_request = \<lparr>path = ''/api/v1/vectors'', content_length = Some ''2'', rfile = ''{}''\<rparr>"

definition malformed_request :: request where
  "malformed_request = \<lparr>path = ''/api/v1/vectors'', content_length = Some ''1'', rfile = ''{''\<rparr>"

definition bare_insert :: "rat \<Rightarrow> event" where
  "bare_insert t = \<lparr>meth = POST, req = bare_request, clock = t\<rparr>"

definition three_events :: "event list" where
  "three_events =
     [bare_insert 1,
      \<lparr>meth = GET, req = health_request, clock = 2\<rparr>,
      \<lparr>meth = POST, req = abc_request, clock = 3\<rparr>]"

section \<open>Basic facts about the model\<close>

lemma do_GET_state: "state_after (do_GET s rq now) = s"
  by (simp add: do_GET_def)

lemma do_POST_state:
  "state_after (do_POST L s rq now) =
     (if contains ''vector'' (path rq) then s\<lparr>count := count s + 1\<rparr> else s)"
  by (simp add: do_POST_def Let_def split: sum.splits)

lemma handle_state:
  "state_after (handle L s ev) = (if is_insert ev then s\<lparr>count := count s + 1\<rparr> else s)"
  by (cases "meth ev") (simp_all add: handle_def is_insert_def do_GET_state do_POST_state)

lemma run_count: "count (run L s evs) = count s + int (length (filter is_insert evs))"
  by (induction evs arbitrary: s) (simp_all add: handle_state)

lemma run_start_time: "start_time (run L s evs) = start_time s"
  by (induction evs arbitrary: s) (simp_all add: handle_state)

lemma successful_inserts_all:
  "\<forall>(ev, r) \<in> set (zip evs (serve L s evs)). is_insert ev \<longrightarrow> succeeded r \<Longrightarrow>
   successful_inserts L s evs = length (filter is_insert evs)"
  unfolding successful_inserts_def
  by (induction evs arbitrary: s) auto

lemma py_trunc_mono: "x \<le> y \<Longrightarrow> py_trunc x \<le> py_trunc y"
proof -
  assume xy: "x \<le> y"
  show ?thesis
  proof (cases "x < 0")
    case xneg: True
    show ?thesis
    proof (cases "y < 0")
      case True
      from xy have "\<lfloor>- y\<rfloor> \<le> \<lfloor>- x\<rfloor>" by (intro floor_mono) simp
      with xneg True show ?thesis by (simp add: py_trunc_def)
    next
      case False
      from xneg have "0 \<le> \<lfloor>- x\<rfloor>" by simp
      moreover from False have "0 \<le> \<lfloor>y\<rfloor>" by simp
      ultimately have "- \<lfloor>- x\<rfloor> \<le> \<lfloor>y\<rfloor>" by linarith
      with xneg False show ?thesis by (simp add: py_trunc_def)
    qed
  next
    case False
    with xy have "\<not> y < 0" by simp
    with False xy show ?thesis by (simp add: py_trunc_def floor_mono)
  qed
qed

lemma py_trunc_floor: "0 \<le> x \<Longrightarrow> py_trunc x = \<lfloor>x\<rfloor>"
  by (simp add: py_trunc_def)





lemma read_vector_id_length:
  "content_length rq = Some h \<Longrightarrow> py_int L h = Inr n \<Longrightarrow>
   read_vector_id L rq c =
     (if n \<noteq> 0 then
        (case json_loads L (rfile_read (rfile rq) n) of
           Inl e \<Rightarrow> Inl e
         | Inr data \<Rightarrow> py_get data ''id'' (PyStr (''vec_'' @ str_int c)))
      else Inr (PyStr (''vec_'' @ str_int c)))"
  by (simp add: read_vector_id_def read_length_def)

lemma do_POST_vector:
  "contains ''vector'' (path rq) \<Longrightarrow>
   do_POST L s rq now =
     (case read_vector_id L rq (count s + 1) of
        Inl e \<Rightarrow> \<lparr>state_after = s\<lparr>count := count s + 1\<rparr>, outcome = Raised e, printed = []\<rparr>
      | Inr vector_id \<Rightarrow>
          \<lparr>state_after = s\<lparr>count := count s + 1\<rparr>,
           outcome = Responded (json_response (PyDict
             [(''id'', vector_id), (''status'', PyStr ''inserted'')])),
           printed = progress_indicator (s\<lparr>count := count s + 1\<rparr>) now\<rparr>)"
  by (simp add: do_POST_def Let_def)

lemma do_GET_health:
  "contains ''health'' (path rq) \<Longrightarrow>
   outcome (do_GET s rq now) = health_reply (count s) (py_trunc (now - start_time s))"
  by (simp add: do_GET_def health_reply_def json_response_def)


lemma do_POST_raised:
  "contains ''vector'' (path rq) \<Longrightarrow> read_vector_id L rq (count s + 1) = Inl e \<Longrightarrow>
   do_POST L s rq now =
     \<lparr>state_after = s\<lparr>count := count s + 1\<rparr>, outcome = Raised e, printed = []\<rparr>"
  by (simp add: do_POST_vector)

lemma succeeded_do_POST:
  "succeeded (do_POST L s rq now) \<Longrightarrow> contains ''vector'' (path rq)"
  by (auto simp: succeeded_def do_POST_def not_found_def split: if_splits)

lemma handle_count_mono: "count s \<le> count (state_after (handle L s ev))"
  by (simp add: handle_state)








text \<open>Unfolding the concrete inputs and the handlers on them.\<close>

lemmas sample_defs =
  sample_lib_def sample_loads_def sample_int_def rfile_read_def
  health_request_def unknown_request_def bare_request_def list_request_def dict_request_def
  malformed_request_def abc_request_def bare_insert_def initial_state_def

lemmas handler_defs =
  handle_def do_GET_def do_POST_def read_vector_id_def read_length_def progress_indicator_def
  json_response_def not_found_def Let_def

section \<open>The properties\<close>

text \<open>
  C1. Serve any sequence of requests from the initial state such that every vector-insert
  request in it succeeds, and let N be the number of these successful inserts. A health
  request handled right after the sequence reports \<^verbatim>\<open>requests\<close> = N. Moreover every
  successful insert leaves the counter exactly one higher than it found it.
\<close>

theorem C1_health_counts_successful_inserts:
  assumes "\<forall>(ev, r) \<in> set (zip evs (serve L (initial_state t0) evs)). is_insert ev \<longrightarrow> succeeded r"
    and "contains ''health'' (path h)"
  shows "outcome (do_GET (run L (initial_state t0) evs) h now) =
           health_reply (int (successful_inserts L (initial_state t0) evs)) (py_trunc (now - t0))
         \<and> (succeeded (do_POST L s rq t) \<longrightarrow>
              count (state_after (do_POST L s rq t)) = count s + 1)"
proof
  from assms(1) have "successful_inserts L (initial_state t0) evs = length (filter is_insert evs)"
    by (rule successful_inserts_all)
  then have "count (run L (initial_state t0) evs) =
      int (successful_inserts L (initial_state t0) evs)"
    by (simp add: run_count initial_state_def)
  moreover have "start_time (run L (initial_state t0) evs) = t0"
    by (simp add: run_start_time initial_state_def)
  ultimately show "outcome (do_GET (run L (initial_state t0) evs) h now) =
      health_reply (int (successful_inserts L (initial_state t0) evs)) (py_trunc (now - t0))"
    using assms(2) by (simp add: do_GET_health)
next
  show "succeeded (do_POST L s rq t) \<longrightarrow> count (state_after (do_POST L s rq t)) = count s + 1"
    using succeeded_do_POST [of L s rq t] by (auto simp: do_POST_state)
qed

theorem C1_health_counts_successful_inserts_witness:
  "outcome (do_GET (run sample_lib (initial_state 0) three_events) health_request 7) =
     health_reply 2 7"
proof -
  have hyp: "\<forall>(ev, r) \<in> set (zip three_events (serve sample_lib (initial_state 0) three_events)).
      is_insert ev \<longrightarrow> succeeded r"
    by (simp add: three_events_def sample_defs handler_defs is_insert_def succeeded_def)
  have h: "contains ''health'' (path health_request)"
    by (simp add: health_request_def)
  have n: "successful_inserts sample_lib (initial_state 0) three_events = 2"
    by (simp add: successful_inserts_def three_events_def sample_defs handler_defs is_insert_def
        succeeded_def)
  from C1_health_counts_successful_inserts [OF hyp h, of 7] n
  show ?thesis by (simp add: py_trunc_def)
qed
















text \<open>
  C8. Handling a GET health request leaves the server state as it was: neither the
  counter nor the start time changes.
\<close>

theorem C8_health_leaves_state:
  assumes "contains ''health'' (path rq)"
  shows "state_after (do_GET s rq now) = s
    \<and> count (state_after (do_GET s rq now)) = count s
    \<and> start_time (state_after (do_GET s rq now)) = start_time s
    \<and> state_after (handle L s \<lparr>meth = GET, req = rq, clock = now\<rparr>) = s"
  by (simp add: do_GET_state handle_def)

theorem C8_health_leaves_state_witness:
  "state_after (do_GET \<lparr>count = 3, start_time = 10\<rparr> health_request 12) =
     \<lparr>count = 3, start_time = 10\<rparr>"
  using C8_health_leaves_state [of health_request "\<lparr>count = 3, start_time = 10\<rparr>" 12]
  by (simp add: health_request_def)

text \<open>
  C9. Take a health request handled at clock reading \<open>t1\<close> in state \<open>s\<close>, then any
  sequence of requests, then a health request handled at clock reading \<open>t2\<close> with
  \<open>t1 \<le> t2\<close>. The second reports \<^verbatim>\<open>requests\<close> and \<^verbatim>\<open>uptime\<close> no smaller than
  the first. No single request, whatever its method, path or outcome, lowers the counter.
\<close>

theorem C9_requests_and_uptime_monotone:
  assumes "t1 \<le> t2"
    and "contains ''health'' (path h1)" and "contains ''health'' (path h2)"
  shows "outcome (do_GET s h1 t1) = health_reply (count s) (py_trunc (t1 - start_time s))
    \<and> outcome (do_GET (run L s evs) h2 t2) =
        health_reply (count (run L s evs)) (py_trunc (t2 - start_time s))
    \<and> count s \<le> count (run L s evs)
    \<and> py_trunc (t1 - start_time s) \<le> py_trunc (t2 - start_time s)
    \<and> count s \<le> count (state_after (handle L s ev))"
proof -
  from assms(1) have "py_trunc (t1 - start_time s) \<le> py_trunc (t2 - start_time s)"
    by (intro py_trunc_mono) simp
  then show ?thesis
    using assms(2,3) by (simp add: do_GET_health run_start_time run_count handle_count_mono)
qed

theorem C9_requests_and_uptime_monotone_witness:
  "outcome (do_GET (initial_state 0) health_request 1) = health_reply 0 1
   \<and> outcome (do_GET (run sample_lib (initial_state 0) three_events) health_request 4) =
       health_reply 2 4"
proof -
  have "count (run sample_lib (initial_state 0) three_events) =
      count (initial_state 0) + int (length (filter is_insert three_events))"
    by (rule run_count)
  also have "\<dots> = 2"
    by (simp add: three_events_def is_insert_def sample_defs)
  finally have c: "count (run sample_lib (initial_state 0) three_events) = 2" .
  have t: "(1::rat) \<le> 4" by simp
  have h: "contains ''health'' (path health_request)"
    by (simp add: health_request_def)
  have s0: "count (initial_state 0) = 0" "start_time (initial_state 0) = 0"
    by (simp_all add: initial_state_def)
  from C9_requests_and_uptime_monotone [OF t h h, of "initial_state 0" sample_lib three_events
      "bare_insert 1"]
  show ?thesis
    by (simp add: c s0 py_trunc_def)
qed

text \<open>
  C10. The counter is incremented before the body is read. A vector-insert request with
  a nonzero Content-Length whose body \<^verbatim>\<open>json.loads\<close> rejects leaves the counter one
  higher although the handler raises and sends nothing.
\<close>

theorem C10_counter_incremented_on_error:
  assumes "contains ''vector'' (path rq)"
    and "content_length rq = Some h" and "py_int L h = Inr n" and "n \<noteq> 0"
    and "json_loads L (rfile_read (rfile rq) n) = Inl e"
  shows "do_POST L s rq now =
    \<lparr>state_after = s\<lparr>count := count s + 1\<rparr>, outcome = Raised e, printed = []\<rparr>"
proof -
  from assms(2-5) have "read_vector_id L rq (count s + 1) = Inl e"
    by (simp add: read_vector_id_length)
  with assms(1) show ?thesis by (rule do_POST_raised)
qed

theorem C10_counter_incremented_on_error_witness:
  "do_POST sample_lib \<lparr>count = 7, start_time = 0\<rparr> malformed_request 1 =
     \<lparr>state_after = \<lparr>count = 8, start_time = 0\<rparr>, outcome = Raised JSONDecodeError,
      printed = []\<rparr>"
  using C10_counter_incremented_on_error [of malformed_request "''1''" sample_lib 1
      JSONDecodeError "\<lparr>count = 7, start_time = 0\<rparr>" 1]
  by (simp add: sample_defs)

end
